theory Spec2Isabelle
  imports Main "HOL-Library.Word"
begin

unbundle bit_operations_syntax

text \<open>
  A shallow embedding of parts of the gtcp server core: the LTV little-endian decoder and
  its interceptor, the length-field framer that the decoder configures, the heartbeat
  route of the client, the merge of the user configuration into the global one, and the
  panic-recovery middleware of the router. The definitions come first, each beside the
  Go it renders; the properties follow.
\<close>

section \<open>Go values used by the LTV decoder\<close>

type_synonym u8 = "8 word"
type_synonym u32 = "32 word"

text \<open>
  A Go slice of bytes. \<open>elems\<close> are the \<open>len\<close> bytes the slice shows; \<open>spare\<close> are the
  bytes of its backing array between \<open>len\<close> and \<open>cap\<close>, which a slice expression may
  bring back into view.
\<close>

record byte_slice =
  elems :: "u8 list"
  spare :: "u8 list"

definition len :: "byte_slice \<Rightarrow> nat" where
  "len s = length (elems s)"

definition cap :: "byte_slice \<Rightarrow> nat" where
  "cap s = length (elems s) + length (spare s)"

text \<open>Run-time panics of the Go code, as values.\<close>

datatype panic =
  SliceBoundsOutOfRange nat nat
  | IndexOutOfRange nat

text \<open>
  The slice expression \<open>s[lo:hi]\<close>: Go panics unless \<open>lo \<le> hi \<le> cap(s)\<close>; the bound is
  the capacity, not the length.
\<close>

definition slice_expr :: "byte_slice \<Rightarrow> nat \<Rightarrow> nat \<Rightarrow> panic + byte_slice" where
  "slice_expr s lo hi =
     (if hi \<le> cap s \<and> lo \<le> hi
      then Inr \<lparr>elems = take (hi - lo) (drop lo (elems s @ spare s)),
                spare = drop hi (elems s @ spare s)\<rparr>
      else Inl (SliceBoundsOutOfRange lo hi))"

text \<open>\<open>make([]byte, n)\<close>: \<open>n\<close> zero bytes, with no spare capacity.\<close>

definition make_bytes :: "nat \<Rightarrow> byte_slice" where
  "make_bytes n = \<lparr>elems = replicate n 0, spare = []\<rparr>"

text \<open>
  \<open>binary.LittleEndian.Uint32(b)\<close>: the bounds check \<open>_ = b[3]\<close>, then the four bytes
  combined by shifts and bitwise or.
\<close>

definition LittleEndian_Uint32 :: "u8 list \<Rightarrow> panic + u32" where
  "LittleEndian_Uint32 b =
     (if length b < 4 then Inl (IndexOutOfRange 3)
      else Inr ((ucast (b ! 0) :: u32)
                OR push_bit 8 (ucast (b ! 1) :: u32)
                OR push_bit 16 (ucast (b ! 2) :: u32)
                OR push_bit 24 (ucast (b ! 3) :: u32)))"

text \<open>
  \<open>binary.Read(bytes.NewBuffer(src), order, dst)\<close> for a byte slice \<open>dst\<close>: it fills
  \<open>dst\<close> with the first \<open>len(dst)\<close> bytes of the buffer; when the buffer is shorter it
  returns an error and leaves \<open>dst\<close> as it was. The decoder drops the error.
\<close>

definition binary_Read :: "u8 list \<Rightarrow> byte_slice \<Rightarrow> byte_slice" where
  "binary_Read buf dst =
     (if length (elems dst) \<le> length buf
      then dst\<lparr>elems := take (length (elems dst)) buf\<rparr>
      else dst)"

section \<open>The LTV little-endian decoder (gdecoder/ltvdecoder\_little.go)\<close>

definition LTV_HEADER_SIZE :: nat where
  "LTV_HEADER_SIZE = 8"

record LTV_Little_Decoder =
  Length :: u32
  Tag :: u32
  Value :: byte_slice

datatype ByteOrder = BigEndian | LittleEndian

text \<open>
  Modelled from the spec: the declaration of \<open>giface.LengthField\<close> is not among the
  sources; the spec's length-field descriptor has a reject threshold, three signed
  layout numbers, a strip count and a byte order. The field names are those of the
  struct literal in \<open>GetLengthField\<close>.
\<close>

record LengthField =
  MaxFrameLength :: int
  LengthFieldOffset :: int
  LengthFieldLength :: int
  LengthAdjustment :: int
  InitialBytesToStrip :: int
  Order :: ByteOrder

definition MaxUint32 :: int where
  "MaxUint32 = 2 ^ 32 - 1"

definition GetLengthField :: LengthField where
  "GetLengthField =
     \<lparr>MaxFrameLength = MaxUint32 + 4 + 4,
      LengthFieldOffset = 0,
      LengthFieldLength = 4,
      LengthAdjustment = 4,
      InitialBytesToStrip = 0,
      Order = LittleEndian\<rparr>"

text \<open>
  \<open>decode\<close>: the index \<open>8+ltvData.Length\<close> is computed in \<open>uint32\<close> and wraps around.
\<close>

definition decode :: "byte_slice \<Rightarrow> panic + LTV_Little_Decoder" where
  "decode data =
     (case slice_expr data 0 4 of
        Inl p \<Rightarrow> Inl p
      | Inr b0 \<Rightarrow>
     (case LittleEndian_Uint32 (elems b0) of
        Inl p \<Rightarrow> Inl p
      | Inr l \<Rightarrow>
     (case slice_expr data 4 8 of
        Inl p \<Rightarrow> Inl p
      | Inr b1 \<Rightarrow>
     (case LittleEndian_Uint32 (elems b1) of
        Inl p \<Rightarrow> Inl p
      | Inr t \<Rightarrow>
     (case slice_expr data 8 (unat (8 + l)) of
        Inl p \<Rightarrow> Inl p
      | Inr src \<Rightarrow>
          Inr \<lparr>Length = l, Tag = t,
               Value = binary_Read (elems src) (make_bytes (unat l))\<rparr>)))))"

text \<open>
  Modelled from the spec: the message type behind \<open>giface.IMessage\<close> is not among the
  sources; the spec's message has the attributes \<open>id: u32\<close>, \<open>data_len: u32\<close> and
  \<open>data: bytes\<close>, and each setter the decoder calls overwrites one of them.
\<close>

record message =
  MsgID :: u32
  DataLen :: u32
  Data :: byte_slice

definition GetData :: "message \<Rightarrow> byte_slice" where
  "GetData m = Data m"

definition SetDataLen :: "u32 \<Rightarrow> message \<Rightarrow> message" where
  "SetDataLen n m = m\<lparr>DataLen := n\<rparr>"

definition SetMsgID :: "u32 \<Rightarrow> message \<Rightarrow> message" where
  "SetMsgID i m = m\<lparr>MsgID := i\<rparr>"

definition SetData :: "byte_slice \<Rightarrow> message \<Rightarrow> message" where
  "SetData d m = m\<lparr>Data := d\<rparr>"

text \<open>
  Modelled from the spec: \<open>giface.IChain\<close> is not among the sources; the spec's chain
  cursor exposes the current message (\<open>None\<close> is Go's \<open>nil\<close>) and
  \<open>proceed(message, payload)\<close>, which hands both to the rest of the chain and returns
  its response. The payload is \<open>nil\<close> or the decoded LTV triple.
\<close>

record 'r chain =
  GetIMessage :: "message option"
  ProceedWithIMessage :: "message option \<Rightarrow> LTV_Little_Decoder option \<Rightarrow> 'r"

definition Intercept :: "'r chain \<Rightarrow> panic + 'r" where
  "Intercept chain =
     (case GetIMessage chain of
        None \<Rightarrow> Inr (ProceedWithIMessage chain None None)
      | Some iMessage \<Rightarrow>
          (if len (GetData iMessage) < LTV_HEADER_SIZE
           then Inr (ProceedWithIMessage chain (Some iMessage) None)
           else (case decode (GetData iMessage) of
                   Inl p \<Rightarrow> Inl p
                 | Inr ltvData \<Rightarrow>
                     Inr (ProceedWithIMessage chain
                            (Some (SetData (Value ltvData)
                                    (SetMsgID (Tag ltvData)
                                      (SetDataLen (Length ltvData) iMessage))))
                            (Some ltvData)))))"

section \<open>The length-field framer\<close>

text \<open>The little-endian value of a byte string, as a number.\<close>

fun le_nat :: "u8 list \<Rightarrow> nat" where
  "le_nat [] = 0"
| "le_nat (b # bs) = unat b + 256 * le_nat bs"

definition read_length :: "ByteOrder \<Rightarrow> u8 list \<Rightarrow> nat" where
  "read_length order bs =
     (case order of LittleEndian \<Rightarrow> le_nat bs | BigEndian \<Rightarrow> le_nat (rev bs))"

datatype frame_result =
  NeedMore
  | FrameTooLarge
  | FrameMalformed
  | Frame "u8 list" "u8 list"

text \<open>
  Modelled from the spec: the framer that consumes a \<open>LengthField\<close> is not among the
  sources. One decoding attempt on the buffered bytes, by the spec's steps (a) to (e):
  need more below \<open>offset + length_field_length\<close> bytes; read \<open>L\<close>; the frame has
  \<open>F = offset + length_field_length + L + length_adjustment\<close> bytes; \<open>F\<close> above
  \<open>max_frame_length\<close> is \<open>FrameTooLarge\<close>; \<open>F < 0\<close> or \<open>F\<close> below the strip count is
  \<open>FrameMalformed\<close>; need more below \<open>F\<close> bytes; else \<open>F\<close> bytes are consumed and the
  frame is emitted without its first \<open>initial_bytes_to_strip\<close> bytes. \<open>Frame f rest\<close> is
  the emitted frame and the bytes left in the buffer.
\<close>

definition frame_attempt :: "LengthField \<Rightarrow> u8 list \<Rightarrow> frame_result" where
  "frame_attempt lf buf =
     (if int (length buf) < LengthFieldOffset lf + LengthFieldLength lf then NeedMore
      else
        (let L = int (read_length (Order lf)
                   (take (nat (LengthFieldLength lf)) (drop (nat (LengthFieldOffset lf)) buf)));
             F = LengthFieldOffset lf + LengthFieldLength lf + L + LengthAdjustment lf
         in if F > MaxFrameLength lf then FrameTooLarge
            else if F < 0 \<or> F < InitialBytesToStrip lf then FrameMalformed
            else if int (length buf) < F then NeedMore
            else Frame (drop (nat (InitialBytesToStrip lf)) (take (nat F) buf))
                       (drop (nat F) buf)))"

section \<open>The parts of an LTV frame\<close>

text \<open>
  What the wire format says of a frame's bytes: the length is the little-endian number in
  bytes 0 to 3, the tag the little-endian number in bytes 4 to 7, and the value the
  \<open>length\<close> bytes after the header of 8 bytes.
\<close>

definition ltv_length :: "u8 list \<Rightarrow> nat" where
  "ltv_length data = le_nat (take 4 data)"

definition ltv_tag :: "u8 list \<Rightarrow> nat" where
  "ltv_tag data = le_nat (take 4 (drop 4 data))"

definition ltv_value :: "u8 list \<Rightarrow> u8 list" where
  "ltv_value data = take (ltv_length data) (drop 8 data)"

text \<open>The frame of the end-to-end scenario: length 5, tag 1, value \<open>HELLO\<close>.\<close>

definition hello_frame :: "u8 list" where
  "hello_frame = [0x05, 0x00, 0x00, 0x00, 0x01, 0x00, 0x00, 0x00, 0x48, 0x45, 0x4C, 0x4C, 0x4F]"

section \<open>Heartbeat registration in the client (giface/iheartbeat.go, gnet/client.go)\<close>

definition HeartBeatDefaultMsgID :: u32 where
  "HeartBeatDefaultMsgID = 99999"

text \<open>
  What the client reads of a heartbeat checker: the results of the interface methods
  \<open>MsgID()\<close> and \<open>Router()\<close>.
\<close>

record 'rt HeartbeatChecker =
  checker_MsgID :: u32
  checker_Router :: 'rt

text \<open>
  Modelled from the spec: the message handler behind \<open>giface.IMsgHandler\<close> is not among
  the sources; the spec's router is a map from message id to handler, filled at
  configuration time and looked up by id. \<open>AddRouter\<close> stores the handler under the id.
\<close>

type_synonym 'rt MsgHandle = "u32 \<rightharpoonup> 'rt"

definition MsgHandle_AddRouter :: "u32 \<Rightarrow> 'rt \<Rightarrow> 'rt MsgHandle \<Rightarrow> 'rt MsgHandle" where
  "MsgHandle_AddRouter msgID router apis = apis(msgID \<mapsto> router)"

text \<open>The fields of \<open>Client\<close> that starting the heartbeat touches.\<close>

record 'rt Client =
  msgHandler :: "'rt MsgHandle"
  hc :: "'rt HeartbeatChecker option"

definition AddRouter :: "u32 \<Rightarrow> 'rt \<Rightarrow> ('rt, 'z) Client_scheme \<Rightarrow> ('rt, 'z) Client_scheme" where
  "AddRouter msgID router c = c\<lparr>msgHandler := MsgHandle_AddRouter msgID router (msgHandler c)\<rparr>"

text \<open>
  \<open>StartHeartBeat\<close>. The constructor \<open>NewHeartbeatChecker\<close> is not among the sources and
  is a parameter.
\<close>

definition StartHeartBeat ::
  "('i \<Rightarrow> 'rt HeartbeatChecker) \<Rightarrow> 'i \<Rightarrow> ('rt, 'z) Client_scheme \<Rightarrow> ('rt, 'z) Client_scheme" where
  "StartHeartBeat NewHeartbeatChecker interval c =
     (let checker = NewHeartbeatChecker interval;
          c1 = AddRouter (checker_MsgID checker) (checker_Router checker) c
      in c1\<lparr>hc := Some checker\<rparr>)"

section \<open>Merging the user configuration (gconf)\<close>

text \<open>
  The fields of \<open>Config\<close> that \<open>UserConfToGlobal\<close> reads or writes. The struct's declaration
  is not among the sources: a field compared with the empty string is a string, one
  compared with \<open>0\<close> a number, one used as a condition a boolean. The numbers are only
  compared with zero and copied, so their width plays no part. Any further field of the
  struct is in the record's extension, which the function does not touch.
\<close>

record Config =
  Name :: string
  Host :: string
  TcpPort :: int
  Version :: string
  MaxPacketSize :: int
  MaxConn :: int
  WorkerPoolSize :: int
  MaxWorkerTaskLen :: int
  WorkerMode :: string
  MaxMsgChanLen :: int
  IOReadBuffSize :: int
  LogIsolationLevel :: int
  LogDir :: string
  LogFile :: string
  HeartbeatMax :: int
  CertFile :: string
  PrivateKeyFile :: string
  Mode :: string
  WsPort :: int
  RouterSlicesMode :: bool
  RequestPoolMode :: bool
  KcpPort :: int
  KcpACKNoDelay :: bool
  KcpStreamMode :: bool
  KcpNoDelay :: int
  KcpInterval :: int
  KcpResend :: int
  KcpNc :: int
  KcpSendWindow :: int
  KcpRecvWindow :: int
  KcpFecDataShards :: int
  KcpFecParityShards :: int

text \<open>Calls into the logging package, in the order they are made.\<close>

datatype glog_call =
  SetLogLevel int
  | SetLogFile string string

text \<open>The state the function works on: the global configuration object and the logger.\<close>

record 'z gconf_state =
  GlobalObject :: "'z Config_scheme"
  glog_calls :: "glog_call list"

text \<open>Go's \<open>if c { stmt }\<close> as a state transformer.\<close>

definition when_do :: "bool \<Rightarrow> ('s \<Rightarrow> 's) \<Rightarrow> 's \<Rightarrow> 's" where
  "when_do c stmt s = (if c then stmt s else s)"

text \<open>An assignment to a field of \<open>GlobalObject\<close>, and a call into the logger.\<close>

definition global ::
  "('z Config_scheme \<Rightarrow> 'z Config_scheme) \<Rightarrow> 'z gconf_state \<Rightarrow> 'z gconf_state" where
  "global upd s = s\<lparr>GlobalObject := upd (GlobalObject s)\<rparr>"

definition glog :: "glog_call \<Rightarrow> 'z gconf_state \<Rightarrow> 'z gconf_state" where
  "glog call s = s\<lparr>glog_calls := glog_calls s @ [call]\<rparr>"

text \<open>
  \<open>UserConfToGlobal\<close>: its statements, run in order. \<open>LogDebug\<close> is the constant
  \<open>glog.LogDebug\<close>, which is not among the sources and is a parameter.
\<close>

definition UserConfToGlobal ::
  "int \<Rightarrow> 'y Config_scheme \<Rightarrow> 'z gconf_state \<Rightarrow> 'z gconf_state" where
  "UserConfToGlobal LogDebug config =
     fold (\<lambda>stmt. stmt)
      [when_do (Name config \<noteq> []) (global (Name_update (\<lambda>_. Name config))),
       when_do (Host config \<noteq> []) (global (Host_update (\<lambda>_. Host config))),
       when_do (TcpPort config \<noteq> 0) (global (TcpPort_update (\<lambda>_. TcpPort config))),
       when_do (Version config \<noteq> []) (global (Version_update (\<lambda>_. Version config))),
       when_do (MaxPacketSize config \<noteq> 0)
         (global (MaxPacketSize_update (\<lambda>_. MaxPacketSize config))),
       when_do (MaxConn config \<noteq> 0) (global (MaxConn_update (\<lambda>_. MaxConn config))),
       when_do (WorkerPoolSize config \<noteq> 0)
         (global (WorkerPoolSize_update (\<lambda>_. WorkerPoolSize config))),
       when_do (MaxWorkerTaskLen config \<noteq> 0)
         (global (MaxWorkerTaskLen_update (\<lambda>_. MaxWorkerTaskLen config))),
       when_do (WorkerMode config \<noteq> [])
         (global (WorkerMode_update (\<lambda>_. WorkerMode config))),
       when_do (MaxMsgChanLen config \<noteq> 0)
         (global (MaxMsgChanLen_update (\<lambda>_. MaxMsgChanLen config))),
       when_do (IOReadBuffSize config \<noteq> 0)
         (global (IOReadBuffSize_update (\<lambda>_. IOReadBuffSize config))),
       global (LogIsolationLevel_update (\<lambda>_. LogIsolationLevel config)),
       (\<lambda>s. when_do (LogIsolationLevel (GlobalObject s) > LogDebug)
               (glog (SetLogLevel (LogIsolationLevel (GlobalObject s)))) s),
       when_do (LogDir config \<noteq> []) (global (LogDir_update (\<lambda>_. LogDir config))),
       when_do (LogFile config \<noteq> [])
         (\<lambda>s. let s1 = global (LogFile_update (\<lambda>_. LogFile config)) s
              in glog (SetLogFile (LogDir (GlobalObject s1)) (LogFile (GlobalObject s1))) s1),
       when_do (HeartbeatMax config \<noteq> 0)
         (global (HeartbeatMax_update (\<lambda>_. HeartbeatMax config))),
       when_do (CertFile config \<noteq> []) (global (CertFile_update (\<lambda>_. CertFile config))),
       when_do (PrivateKeyFile config \<noteq> [])
         (global (PrivateKeyFile_update (\<lambda>_. PrivateKeyFile config))),
       when_do (Mode config \<noteq> []) (global (Mode_update (\<lambda>_. Mode config))),
       when_do (WsPort config \<noteq> 0) (global (WsPort_update (\<lambda>_. WsPort config))),
       when_do (RouterSlicesMode config)
         (global (RouterSlicesMode_update (\<lambda>_. RouterSlicesMode config))),
       when_do (RequestPoolMode config)
         (global (RequestPoolMode_update (\<lambda>_. RequestPoolMode config))),
       when_do (KcpPort config \<noteq> 0) (global (KcpPort_update (\<lambda>_. KcpPort config))),
       when_do (KcpACKNoDelay config)
         (global (KcpACKNoDelay_update (\<lambda>_. KcpACKNoDelay config))),
       when_do (\<not> KcpStreamMode config)
         (global (KcpStreamMode_update (\<lambda>_. KcpStreamMode config))),
       when_do (KcpNoDelay config \<noteq> 0)
         (global (KcpNoDelay_update (\<lambda>_. KcpNoDelay config))),
       when_do (KcpInterval config \<noteq> 0)
         (global (KcpInterval_update (\<lambda>_. KcpInterval config))),
       when_do (KcpResend config \<noteq> 0) (global (KcpResend_update (\<lambda>_. KcpResend config))),
       when_do (KcpNc config \<noteq> 0) (global (KcpNc_update (\<lambda>_. KcpNc config))),
       when_do (KcpSendWindow config \<noteq> 0)
         (global (KcpSendWindow_update (\<lambda>_. KcpSendWindow config))),
       when_do (KcpRecvWindow config \<noteq> 0)
         (global (KcpRecvWindow_update (\<lambda>_. KcpRecvWindow config))),
       when_do (KcpFecDataShards config \<noteq> 0)
         (global (KcpFecDataShards_update (\<lambda>_. KcpFecDataShards config))),
       when_do (KcpFecParityShards config \<noteq> 0)
         (global (KcpFecParityShards_update (\<lambda>_. KcpFecParityShards config)))]"

text \<open>Go's zero value of \<open>Config\<close>, and a state whose global object is filled in.\<close>

definition zero_Config :: Config where
  "zero_Config =
     \<lparr>Name = [],
      Host = [],
      TcpPort = 0,
      Version = [],
      MaxPacketSize = 0,
      MaxConn = 0,
      WorkerPoolSize = 0,
      MaxWorkerTaskLen = 0,
      WorkerMode = [],
      MaxMsgChanLen = 0,
      IOReadBuffSize = 0,
      LogIsolationLevel = 0,
      LogDir = [],
      LogFile = [],
      HeartbeatMax = 0,
      CertFile = [],
      PrivateKeyFile = [],
      Mode = [],
      WsPort = 0,
      RouterSlicesMode = False,
      RequestPoolMode = False,
      KcpPort = 0,
      KcpACKNoDelay = False,
      KcpStreamMode = False,
      KcpNoDelay = 0,
      KcpInterval = 0,
      KcpResend = 0,
      KcpNc = 0,
      KcpSendWindow = 0,
      KcpRecvWindow = 0,
      KcpFecDataShards = 0,
      KcpFecParityShards = 0\<rparr>"

definition sample_state :: "unit gconf_state" where
  "sample_state =
     \<lparr>GlobalObject =
        \<lparr>Name = ''ZinxServerApp'',
         Host = ''0.0.0.0'',
         TcpPort = 8999,
         Version = ''V1.0'',
         MaxPacketSize = 4096,
         MaxConn = 12000,
         WorkerPoolSize = 10,
         MaxWorkerTaskLen = 1024,
         WorkerMode = ''Hash'',
         MaxMsgChanLen = 1024,
         IOReadBuffSize = 1024,
         LogIsolationLevel = 2,
         LogDir = ''./log'',
         LogFile = ''zinx.log'',
         HeartbeatMax = 10,
         CertFile = ''cert.pem'',
         PrivateKeyFile = ''key.pem'',
         Mode = ''tcp'',
         WsPort = 9000,
         RouterSlicesMode = True,
         RequestPoolMode = True,
         KcpPort = 9001,
         KcpACKNoDelay = True,
         KcpStreamMode = False,
         KcpNoDelay = 1,
         KcpInterval = 10,
         KcpResend = 2,
         KcpNc = 1,
         KcpSendWindow = 32,
         KcpRecvWindow = 32,
         KcpFecDataShards = 3,
         KcpFecParityShards = 1\<rparr>,
      glog_calls = []\<rparr>"

section \<open>Panic recovery in the router (gnet)\<close>

definition StackBegin :: nat where
  "StackBegin = 3"

definition StackEnd :: nat where
  "StackEnd = 5"

text \<open>
  What \<open>runtime.Caller\<close> and \<open>runtime.FuncForPC\<close> report of one stack frame: the
  function's name, the file and the line.
\<close>

record stack_frame =
  func_name :: string
  file_name :: string
  line_no :: int

text \<open>
  \<open>runtime.Caller(i)\<close> on a call stack, innermost frame first (frame 0 is the function
  that calls \<open>Caller\<close>): \<open>None\<close> is \<open>ok = false\<close>.
\<close>

definition Caller :: "stack_frame list \<Rightarrow> nat \<Rightarrow> stack_frame option" where
  "Caller stack i = (if i < length stack then Some (stack ! i) else None)"

text \<open>\<open>strings.Split(s, sep)\<close> for a separator of one character.\<close>

fun strings_Split :: "string \<Rightarrow> char \<Rightarrow> string list" where
  "strings_Split [] sep = [[]]"
| "strings_Split (c # cs) sep =
     (case strings_Split cs sep of
        [] \<Rightarrow> [[c]]
      | part # parts \<Rightarrow> (if c = sep then [] # part # parts else (c # part) # parts))"

text \<open>Indexing a slice of strings: Go panics at an index past the end.\<close>

definition index_expr :: "string list \<Rightarrow> nat \<Rightarrow> panic + string" where
  "index_expr xs i = (if i < length xs then Inr (xs ! i) else Inl (IndexOutOfRange i))"

text \<open>
  \<open>path.Base\<close>: the last element of a slash-separated path, after trailing slashes are
  removed; \<open>"."\<close> for the empty path and \<open>"/"\<close> for a path of slashes only.
\<close>

definition path_Base :: "string \<Rightarrow> string" where
  "path_Base p =
     (if p = [] then ''.''
      else
        (let stripped = rev (dropWhile (\<lambda>c. c = CHR ''/'') (rev p));
             last_elem = rev (takeWhile (\<lambda>c. c \<noteq> CHR ''/'') (rev stripped))
         in if last_elem = [] then ''/'' else last_elem))"

text \<open>The verb \<open>%d\<close> on an integer: its decimal digits, with a minus sign below zero.\<close>

fun decimal :: "nat \<Rightarrow> string" where
  "decimal n =
     (if n < 10 then [char_of (48 + n)]
      else decimal (n div 10) @ [char_of (48 + n mod 10)])"

declare decimal.simps [simp del]

definition format_d :: "int \<Rightarrow> string" where
  "format_d i = (if i < 0 then CHR ''-'' # decimal (nat (- i)) else decimal (nat i))"

text \<open>
  The line that \<open>fmt.Fprintf(panicInfo, "funcname:%s filename:%s LineNo:%d\\n", ...)\<close>
  appends to the buffer.
\<close>

definition frame_line :: "string \<Rightarrow> string \<Rightarrow> int \<Rightarrow> string" where
  "frame_line funcname filename lineNo =
     ''funcname:'' @ funcname @ '' filename:'' @ filename @ '' LineNo:'' @ format_d lineNo
       @ [CHR 0x0A]"

text \<open>
  The loop of \<open>getInfo\<close>, from frame \<open>i\<close> up to frame \<open>StackEnd\<close>; it breaks at the first
  frame the runtime does not have. The index \<open>[1]\<close> into the split name is not guarded
  in the source.
\<close>

function getInfo_loop :: "stack_frame list \<Rightarrow> nat \<Rightarrow> string \<Rightarrow> panic + string" where
  "getInfo_loop stack i panicInfo =
     (if i \<le> StackEnd then
        (case Caller stack i of
           None \<Rightarrow> Inr panicInfo
         | Some fr \<Rightarrow>
             (case index_expr (strings_Split (func_name fr) (CHR ''.'')) 1 of
                Inl p \<Rightarrow> Inl p
              | Inr funcname \<Rightarrow>
                  getInfo_loop stack (Suc i)
                    (panicInfo @ frame_line funcname (path_Base (file_name fr)) (line_no fr))))
      else Inr panicInfo)"
  by pat_completeness auto
termination
  by (relation "measure (\<lambda>(stack, i, panicInfo). Suc StackEnd - i)") auto

declare getInfo_loop.simps [simp del]

definition getInfo :: "stack_frame list \<Rightarrow> nat \<Rightarrow> panic + string" where
  "getInfo stack ship = getInfo_loop stack ship []"

text \<open>
  What \<open>request.RouterSlicesNext()\<close> does below the middleware: it returns, or a handler
  panics with a value; then the deferred function runs on the call stack that
  \<open>runtime.Caller\<close> sees from inside \<open>getInfo\<close>. A recovered value that is \<open>nil\<close> counts
  as no panic in the source (\<open>err != nil\<close>), so the panic value here is a value other
  than \<open>nil\<close>.
\<close>

datatype 'e handlers_outcome =
  Returned
  | Panicked 'e "stack_frame list"

text \<open>One record of the error log: the arguments of the \<open>ErrorF\<close> call in the middleware.\<close>

record 'e log_record =
  log_MsgId :: u32
  log_info :: string
  log_err :: 'e

text \<open>
  \<open>RouterRecovery\<close>, on the id of the request's message, the outcome of the handlers
  below and the error log. \<open>Inr\<close> is a normal return with the log it leaves; \<open>Inl\<close> is a
  panic that leaves the middleware.
\<close>

definition RouterRecovery ::
  "u32 \<Rightarrow> 'e handlers_outcome \<Rightarrow> 'e log_record list \<Rightarrow> panic + 'e log_record list" where
  "RouterRecovery request_MsgID below log =
     (case below of
        Returned \<Rightarrow> Inr log
      | Panicked err stack \<Rightarrow>
          (case getInfo stack StackBegin of
             Inl p \<Rightarrow> Inl p
           | Inr panicInfo \<Rightarrow>
               Inr (log @ [\<lparr>log_MsgId = request_MsgID, log_info = panicInfo,
                             log_err = err\<rparr>])))"



section \<open>Properties: the decoder's length-field descriptor\<close>

text \<open>
  C2. The LTV little-endian decoder describes its frames with length-field offset 0,
  a length field of 4 bytes, length adjustment 4, no bytes stripped, and little-endian
  byte order.
\<close>

theorem GetLengthField_descriptor:
  "LengthFieldOffset GetLengthField = 0
   \<and> LengthFieldLength GetLengthField = 4
   \<and> LengthAdjustment GetLengthField = 4
   \<and> InitialBytesToStrip GetLengthField = 0
   \<and> Order GetLengthField = LittleEndian"
  by (simp add: GetLengthField_def)

section \<open>Properties: reading the header\<close>

lemma or_byte_add:
  fixes a :: u8 and x :: u32
  shows "(ucast a :: u32) OR push_bit 8 x = ucast a + push_bit 8 x"
  by (rule disjunctive_add [symmetric]) (auto simp: bit_simps dest: bit_imp_le_length)

lemma unat_byte_lt: "unat (a :: u8) < 256"
  using unsigned_less [of a, where 'a = nat] by simp

lemma unat_ucast_byte: "unat (ucast (a :: u8) :: u32) = unat a"
proof -
  have "unat a < 2 ^ 32" using unat_byte_lt [of a] by simp
  then show ?thesis by (simp add: unsigned_ucast_eq take_bit_nat_eq_self)
qed

lemma unat_push8:
  fixes x :: u32
  assumes "unat x < 2 ^ 24"
  shows "unat (push_bit 8 x) = 256 * unat x"
proof -
  have "unat (x * 256) = unat x * unat (256 :: u32)"
    using assms by (subst unat_mult_lem [THEN iffD1]) simp_all
  then show ?thesis by (simp add: push_bit_eq_mult)
qed

lemma unat_or_byte:
  fixes a :: u8 and x :: u32
  assumes "unat x < 2 ^ 24"
  shows "unat ((ucast a :: u32) OR push_bit 8 x) = unat a + 256 * unat x"
proof -
  have p: "unat (push_bit 8 x) = 256 * unat x" using assms by (rule unat_push8)
  have "unat ((ucast a :: u32) + push_bit 8 x) = unat (ucast a :: u32) + unat (push_bit 8 x)"
    using assms unat_byte_lt [of a] p
    by (subst unat_add_lem [THEN iffD1]) (simp_all add: unat_ucast_byte)
  then show ?thesis by (simp add: or_byte_add p unat_ucast_byte)
qed

lemma unat_four_bytes:
  fixes a b c d :: u8
  shows "unat ((ucast a :: u32) OR push_bit 8 (ucast b :: u32) OR push_bit 16 (ucast c :: u32) OR push_bit 24 (ucast d :: u32))
       = unat a + 256 * (unat b + 256 * (unat c + 256 * unat d))"
proof -
  define D where "D = (ucast d :: u32)"
  define C where "C = (ucast c :: u32) OR push_bit 8 D"
  define B where "B = (ucast b :: u32) OR push_bit 8 C"
  have e: "(ucast a :: u32) OR push_bit 8 (ucast b :: u32) OR push_bit 16 (ucast c :: u32) OR push_bit 24 (ucast d :: u32)
        = (ucast a :: u32) OR push_bit 8 B"
    by (simp add: B_def C_def D_def push_bit_or or.assoc push_bit_push_bit)
  have d: "unat D = unat d" unfolding D_def by (rule unat_ucast_byte)
  have "unat D < 2 ^ 24" using unat_byte_lt [of d] by (simp add: d)
  then have c: "unat C = unat c + 256 * unat d"
    unfolding C_def by (simp add: unat_or_byte d)
  have "unat C < 2 ^ 24" using unat_byte_lt [of d] unat_byte_lt [of c] by (simp add: c)
  then have b: "unat B = unat b + 256 * (unat c + 256 * unat d)"
    unfolding B_def by (simp add: unat_or_byte c)
  have "unat B < 2 ^ 24"
    using unat_byte_lt [of d] unat_byte_lt [of c] unat_byte_lt [of b] by (simp add: b)
  then have "unat ((ucast a :: u32) OR push_bit 8 B) = unat a + 256 * unat B"
    by (rule unat_or_byte)
  then show ?thesis
    unfolding e by (simp add: b)
qed

lemma le_nat_bound: "le_nat bs < 256 ^ length bs"
proof (induction bs)
  case Nil
  then show ?case by simp
next
  case (Cons b bs)
  have "unat b + 256 * le_nat bs < 256 + 256 * le_nat bs"
    using unat_byte_lt [of b] by simp
  also have "\<dots> = 256 * Suc (le_nat bs)" by simp
  also have "\<dots> \<le> 256 * 256 ^ length bs"
    using Cons.IH by (intro mult_le_mono2) simp
  finally show ?case by simp
qed

lemma four_bytes:
  assumes "length b = 4"
  shows "b = [b ! 0, b ! 1, b ! 2, b ! 3]"
  using assms by (auto simp: list_eq_iff_nth_eq less_Suc_eq numeral_eq_Suc)

lemma LittleEndian_Uint32_le_nat:
  assumes "length b = 4"
  shows "\<exists>w. LittleEndian_Uint32 b = Inr w \<and> unat w = le_nat b"
proof -
  have "le_nat b = le_nat [b ! 0, b ! 1, b ! 2, b ! 3]"
    using four_bytes [OF assms] by simp
  then show ?thesis
    using assms by (simp add: LittleEndian_Uint32_def unat_four_bytes)
qed

lemma slice_expr_within:
  assumes "lo \<le> hi" and "hi \<le> len s"
  shows "\<exists>sp. slice_expr s lo hi = Inr \<lparr>elems = take (hi - lo) (drop lo (elems s)), spare = sp\<rparr>"
  using assms by (simp add: slice_expr_def len_def cap_def)

lemma decode_complete:
  assumes h8: "8 \<le> len data"
    and fit: "8 + ltv_length (elems data) \<le> len data"
    and nowrap: "8 + ltv_length (elems data) < 2 ^ 32"
  shows "\<exists>l t. decode data = Inr \<lparr>Length = l, Tag = t,
                    Value = \<lparr>elems = ltv_value (elems data), spare = []\<rparr>\<rparr>
               \<and> unat l = ltv_length (elems data) \<and> unat t = ltv_tag (elems data)"
proof -
  obtain sp0 where s0: "slice_expr data 0 4 = Inr \<lparr>elems = take 4 (elems data), spare = sp0\<rparr>"
    using slice_expr_within [of 0 4 data] h8 by auto
  obtain sp1 where s1: "slice_expr data 4 8 = Inr \<lparr>elems = take 4 (drop 4 (elems data)), spare = sp1\<rparr>"
    using slice_expr_within [of 4 8 data] h8 by auto
  have l4: "length (take 4 (elems data)) = 4" using h8 by (simp add: len_def)
  have t4: "length (take 4 (drop 4 (elems data))) = 4" using h8 by (simp add: len_def)
  obtain l where l: "LittleEndian_Uint32 (take 4 (elems data)) = Inr l"
    and ul: "unat l = ltv_length (elems data)"
    using LittleEndian_Uint32_le_nat [OF l4] by (auto simp: ltv_length_def)
  obtain t where t: "LittleEndian_Uint32 (take 4 (drop 4 (elems data))) = Inr t"
    and ut: "unat t = ltv_tag (elems data)"
    using LittleEndian_Uint32_le_nat [OF t4] by (auto simp: ltv_tag_def)
  have "unat (8 + l) = unat (8 :: u32) + unat l"
    using nowrap ul by (subst unat_add_lem [THEN iffD1]) simp_all
  then have hi: "unat (8 + l) = 8 + ltv_length (elems data)" by (simp add: ul)
  obtain sp2 where s2: "slice_expr data 8 (unat (8 + l))
      = Inr \<lparr>elems = take (ltv_length (elems data)) (drop 8 (elems data)), spare = sp2\<rparr>"
    using slice_expr_within [of 8 "unat (8 + l)" data] fit hi by auto
  have lenv: "length (take (ltv_length (elems data)) (drop 8 (elems data))) = ltv_length (elems data)"
    using fit by (simp add: len_def)
  have fit': "ltv_length (elems data) \<le> length (elems data) - 8"
    using fit by (simp add: len_def)
  have "decode data = Inr \<lparr>Length = l, Tag = t,
          Value = \<lparr>elems = ltv_value (elems data), spare = []\<rparr>\<rparr>"
    by (simp add: decode_def s0 s1 s2 l t binary_Read_def make_bytes_def ul fit' ltv_value_def)
  then show ?thesis using ul ut by blast
qed

lemma le_nat_four: "length bs \<le> 4 \<Longrightarrow> le_nat bs < 2 ^ 32"
proof -
  assume a: "length bs \<le> 4"
  have "le_nat bs < 256 ^ length bs" by (rule le_nat_bound)
  also have "(256 :: nat) ^ length bs \<le> 256 ^ 4"
    using a by (intro power_increasing) simp_all
  finally show ?thesis by simp
qed

lemma ltv_length_lt: "ltv_length buf < 2 ^ 32"
  unfolding ltv_length_def by (rule le_nat_four) simp

lemma hello_facts:
  "ltv_length hello_frame = 5" "ltv_tag hello_frame = 1" 
  "ltv_value hello_frame = [0x48, 0x45, 0x4C, 0x4C, 0x4F]" "length hello_frame = 13"
  by (simp_all add: hello_frame_def ltv_length_def ltv_tag_def ltv_value_def)

section \<open>Properties: the decoder interceptor\<close>

lemma Intercept_decode:
  assumes "GetIMessage chain = Some m" and "8 \<le> len (Data m)"
    and "decode (Data m) = Inr ltv"
  shows "Intercept chain = Inr (ProceedWithIMessage chain
           (Some (m\<lparr>DataLen := Length ltv, MsgID := Tag ltv, Data := Value ltv\<rparr>)) (Some ltv))"
  using assms
  by (simp add: Intercept_def GetData_def LTV_HEADER_SIZE_def SetData_def SetMsgID_def
      SetDataLen_def)

text \<open>
  C1, as amended. For every message whose data holds at least 8 bytes and the whole
  frame its header declares (8 bytes and the declared length fit in the data, and their
  sum fits in 32 bits), the interceptor hands on a message whose id is the little-endian
  tag of bytes 4 to 7, whose data are the declared number of bytes after the header, and
  whose length is the little-endian number of bytes 0 to 3 and equals the length of the
  data; the payload handed on is the same triple.
\<close>

theorem Intercept_decodes_complete_frame:
  assumes "GetIMessage chain = Some m"
    and "8 \<le> len (Data m)"
    and "8 + ltv_length (elems (Data m)) \<le> len (Data m)"
    and "8 + ltv_length (elems (Data m)) < 2 ^ 32"
  shows "\<exists>m'. Intercept chain
             = Inr (ProceedWithIMessage chain (Some m')
                      (Some \<lparr>Length = DataLen m', Tag = MsgID m', Value = Data m'\<rparr>))
           \<and> unat (MsgID m') = ltv_tag (elems (Data m))
           \<and> Data m' = \<lparr>elems = ltv_value (elems (Data m)), spare = []\<rparr>
           \<and> unat (DataLen m') = ltv_length (elems (Data m))
           \<and> unat (DataLen m') = len (Data m')"
proof -
  let ?d = "elems (Data m)"
  obtain l t where dec: "decode (Data m)
      = Inr \<lparr>Length = l, Tag = t, Value = \<lparr>elems = ltv_value ?d, spare = []\<rparr>\<rparr>"
    and ul: "unat l = ltv_length ?d" and ut: "unat t = ltv_tag ?d"
    using decode_complete [OF assms(2) assms(3) assms(4)] by blast
  let ?m' = "m\<lparr>DataLen := l, MsgID := t, Data := \<lparr>elems = ltv_value ?d, spare = []\<rparr>\<rparr>"
  have run: "Intercept chain = Inr (ProceedWithIMessage chain (Some ?m')
      (Some \<lparr>Length = l, Tag = t, Value = \<lparr>elems = ltv_value ?d, spare = []\<rparr>\<rparr>))"
    using Intercept_decode [OF assms(1) assms(2) dec] by simp
  have vlen: "length (ltv_value ?d) = ltv_length ?d"
    using assms(3) by (simp add: ltv_value_def len_def)
  show ?thesis
    by (rule exI [of _ ?m']) (simp add: run ul ut vlen len_def)
qed

text \<open>The amended C1 at the frame \<open>HELLO\<close> with tag 1.\<close>

theorem Intercept_decodes_complete_frame_witness:
  "\<exists>m'. Intercept \<lparr>GetIMessage = Some \<lparr>MsgID = 0, DataLen = 13,
                          Data = \<lparr>elems = hello_frame, spare = []\<rparr>\<rparr>,
                     ProceedWithIMessage = Pair\<rparr>
          = Inr (Some m', Some \<lparr>Length = DataLen m', Tag = MsgID m', Value = Data m'\<rparr>)
        \<and> unat (MsgID m') = 1
        \<and> Data m' = \<lparr>elems = [0x48, 0x45, 0x4C, 0x4C, 0x4F], spare = []\<rparr>
        \<and> unat (DataLen m') = 5
        \<and> unat (DataLen m') = len (Data m')"
  using Intercept_decodes_complete_frame
    [of "\<lparr>GetIMessage = Some \<lparr>MsgID = 0, DataLen = 13,
                          Data = \<lparr>elems = hello_frame, spare = []\<rparr>\<rparr>,
                     ProceedWithIMessage = Pair\<rparr>"
        "\<lparr>MsgID = 0, DataLen = 13, Data = \<lparr>elems = hello_frame, spare = []\<rparr>\<rparr>"]
  by (simp add: hello_facts len_def)

text \<open>
  C1 as stated fails: a message of 8 bytes whose header declares 5 value bytes has
  at least 8 bytes, but the interceptor does not hand on a decoded message: the slice
  \<open>data[8:13]\<close> is out of range and the call panics.
\<close>

theorem Intercept_header_only_panics:
  "8 \<le> len \<lparr>elems = [0x05, 0x00, 0x00, 0x00, 0x01, 0x00, 0x00, 0x00 :: u8], spare = []\<rparr>
   \<and> Intercept \<lparr>GetIMessage = Some \<lparr>MsgID = 0, DataLen = 8,
                    Data = \<lparr>elems = [0x05, 0x00, 0x00, 0x00, 0x01, 0x00, 0x00, 0x00], spare = []\<rparr>\<rparr>,
                ProceedWithIMessage = Pair\<rparr>
     = Inl (SliceBoundsOutOfRange 8 13)"
  by (simp add: Intercept_def GetData_def LTV_HEADER_SIZE_def len_def cap_def decode_def slice_expr_def
      LittleEndian_Uint32_def)

text \<open>
  C6. For every message whose data is shorter than the header of 8 bytes, the interceptor
  hands the message on as it is, its id, length and data untouched, with no decoded
  payload.
\<close>

theorem Intercept_short_forwards:
  assumes "GetIMessage chain = Some m" and "len (Data m) < 8"
  shows "Intercept chain = Inr (ProceedWithIMessage chain (Some m) None)"
  using assms by (simp add: Intercept_def GetData_def LTV_HEADER_SIZE_def)

text \<open>C6 at the first 6 bytes of a frame.\<close>

theorem Intercept_short_forwards_witness:
  "Intercept \<lparr>GetIMessage = Some \<lparr>MsgID = 7, DataLen = 6,
                  Data = \<lparr>elems = [0x05, 0x00, 0x00, 0x00, 0x01, 0x00], spare = []\<rparr>\<rparr>,
              ProceedWithIMessage = Pair\<rparr>
   = Inr (Some \<lparr>MsgID = 7, DataLen = 6,
                Data = \<lparr>elems = [0x05, 0x00, 0x00, 0x00, 0x01, 0x00], spare = []\<rparr>\<rparr>, None)"
  using Intercept_short_forwards
    [of "\<lparr>GetIMessage = Some \<lparr>MsgID = 7, DataLen = 6,
                  Data = \<lparr>elems = [0x05, 0x00, 0x00, 0x00, 0x01, 0x00], spare = []\<rparr>\<rparr>,
              ProceedWithIMessage = Pair\<rparr>"
        "\<lparr>MsgID = 7, DataLen = 6,
                  Data = \<lparr>elems = [0x05, 0x00, 0x00, 0x00, 0x01, 0x00], spare = []\<rparr>\<rparr>"]
  by (simp add: len_def)

text \<open>
  C4. On the bytes \<open>05 00 00 00 01 00 00 00 48 45 4C 4C 4F\<close> the interceptor hands on one
  message, with id 1, length 5 and the ASCII bytes of \<open>HELLO\<close> as data, whatever the
  id and length the message came with and whatever lies behind the slice.
\<close>

theorem Intercept_hello:
  "Intercept \<lparr>GetIMessage = Some \<lparr>MsgID = i, DataLen = n,
                  Data = \<lparr>elems = hello_frame, spare = sp\<rparr>\<rparr>,
              ProceedWithIMessage = k\<rparr>
   = Inr (k (Some \<lparr>MsgID = 1, DataLen = 5,
                   Data = \<lparr>elems = map (\<lambda>c. of_nat (of_char c)) ''HELLO'', spare = []\<rparr>\<rparr>)
            (Some \<lparr>Length = 5, Tag = 1,
                   Value = \<lparr>elems = map (\<lambda>c. of_nat (of_char c)) ''HELLO'', spare = []\<rparr>\<rparr>))"
  by (simp add: Intercept_def GetData_def LTV_HEADER_SIZE_def len_def cap_def decode_def slice_expr_def
      LittleEndian_Uint32_def hello_frame_def binary_Read_def make_bytes_def SetData_def
      SetMsgID_def SetDataLen_def)

text \<open>
  C9. The interceptor is not total: on a message of 10 bytes whose header declares 5
  value bytes, of which 2 are there, \<open>decode\<close> slices \<open>data[8:13]\<close> past the capacity
  and the call panics instead of returning.
\<close>

theorem Intercept_truncated_value_panics:
  "Intercept \<lparr>GetIMessage = Some \<lparr>MsgID = 0, DataLen = 10,
                  Data = \<lparr>elems = [0x05, 0x00, 0x00, 0x00, 0x01, 0x00, 0x00, 0x00, 0x48, 0x45],
                          spare = []\<rparr>\<rparr>,
              ProceedWithIMessage = Pair\<rparr>
   = Inl (SliceBoundsOutOfRange 8 13)"
  by (simp add: Intercept_def GetData_def LTV_HEADER_SIZE_def len_def cap_def decode_def slice_expr_def
      LittleEndian_Uint32_def)

text \<open>
  The same happens whatever follows the header when the declared length is
  \<open>0xFFFFFFFF\<close>: \<open>8 + Length\<close> wraps around to 7 and the slice \<open>data[8:7]\<close> is refused. A
  \<open>nil\<close> message is handed on as \<open>nil\<close>.
\<close>

lemma Intercept_length_wraps:
  assumes "GetIMessage chain = Some m" and "8 \<le> len (Data m)"
    and "take 4 (elems (Data m)) = [0xFF, 0xFF, 0xFF, 0xFF]"
  shows "Intercept chain = Inl (SliceBoundsOutOfRange 8 7)"
  using assms
  by (simp add: Intercept_def GetData_def LTV_HEADER_SIZE_def len_def cap_def decode_def slice_expr_def
      LittleEndian_Uint32_def)

lemma Intercept_nil:
  assumes "GetIMessage chain = None"
  shows "Intercept chain = Inr (ProceedWithIMessage chain None None)"
  using assms by (simp add: Intercept_def)

section \<open>Properties: the framer under the decoder's descriptor\<close>

text \<open>
  C3, as amended. The descriptor's reject threshold is the constant \<open>MaxUint32 + 8\<close>,
  whatever \<open>max_packet_size\<close> is. Under it the framer never answers \<open>FrameTooLarge\<close>: it
  emits the frame of 8 bytes and the declared length as soon as that many bytes are
  buffered, and asks for more until then.
\<close>

theorem LTV_framer_threshold_is_constant:
  "MaxFrameLength GetLengthField = 4294967303
   \<and> frame_attempt GetLengthField buf \<noteq> FrameTooLarge
   \<and> frame_attempt GetLengthField buf
       = (if 8 + ltv_length buf \<le> length buf
          then Frame (take (8 + ltv_length buf) buf) (drop (8 + ltv_length buf) buf)
          else NeedMore)"
proof -
  have b: "ltv_length buf < 4294967296" using ltv_length_lt [of buf] by simp
  have m: "MaxFrameLength GetLengthField = 4294967303"
    by (simp add: GetLengthField_def MaxUint32_def)
  have f: "frame_attempt GetLengthField buf
       = (if 8 + ltv_length buf \<le> length buf
          then Frame (take (8 + ltv_length buf) buf) (drop (8 + ltv_length buf) buf)
          else NeedMore)"
    using b
    by (auto simp: frame_attempt_def GetLengthField_def MaxUint32_def read_length_def
        ltv_length_def Let_def nat_add_distrib)
  show ?thesis using m f by simp
qed

text \<open>The amended C3 at the frame \<open>HELLO\<close> followed by one more byte.\<close>

theorem LTV_framer_threshold_is_constant_witness:
  "frame_attempt GetLengthField (hello_frame @ [0xAA]) \<noteq> FrameTooLarge
   \<and> frame_attempt GetLengthField (hello_frame @ [0xAA]) = Frame hello_frame [0xAA]"
  using LTV_framer_threshold_is_constant [of "hello_frame @ [0xAA]"]
  by (simp add: hello_frame_def ltv_length_def)

text \<open>
  C3 as stated fails: with \<open>max_packet_size = 4\<close>, the frame \<open>HELLO\<close> carries one value
  byte more than that, and the framer emits it instead of rejecting it.
\<close>

theorem LTV_framer_accepts_above_max_packet_size:
  "int (length (ltv_value hello_frame)) = 4 + 1
   \<and> frame_attempt GetLengthField hello_frame = Frame hello_frame []"
  by (simp add: frame_attempt_def GetLengthField_def MaxUint32_def read_length_def
      hello_frame_def ltv_value_def ltv_length_def Let_def)

section \<open>Properties: the heartbeat route\<close>

text \<open>
  C7. The default heartbeat message id is 99999, and after \<open>StartHeartBeat\<close> the client's
  message handler holds the new checker's router under the message id the checker is
  bound to, and the client holds the checker.
\<close>

theorem StartHeartBeat_registers_checker:
  "unat HeartBeatDefaultMsgID = 99999
   \<and> msgHandler (StartHeartBeat NewHeartbeatChecker interval c)
        (checker_MsgID (NewHeartbeatChecker interval))
       = Some (checker_Router (NewHeartbeatChecker interval))
   \<and> hc (StartHeartBeat NewHeartbeatChecker interval c) = Some (NewHeartbeatChecker interval)"
  by (simp add: HeartBeatDefaultMsgID_def StartHeartBeat_def AddRouter_def
      MsgHandle_AddRouter_def Let_def)

section \<open>Properties: merging the user configuration\<close>

lemma GlobalObject_global: "GlobalObject (global upd s) = upd (GlobalObject s)"
  by (simp add: global_def)

lemma GlobalObject_when_global:
  "GlobalObject (when_do c (global upd) s) = when_do c upd (GlobalObject s)"
  by (simp add: when_do_def global_def)

lemma GlobalObject_when_glog:
  "GlobalObject (when_do c (glog call) s) = GlobalObject s"
  by (simp add: when_do_def glog_def)

lemma GlobalObject_when_logfile:
  "GlobalObject (when_do c (\<lambda>s. glog (f s) (global upd s)) s)
     = when_do c upd (GlobalObject s)"
  by (simp add: when_do_def glog_def global_def Let_def)

lemmas GlobalObject_steps =
  GlobalObject_global GlobalObject_when_global GlobalObject_when_glog GlobalObject_when_logfile

text \<open>A guarded assignment to a field is an update of that field alone.\<close>

lemma when_do_fields:
  "when_do c (Name_update (\<lambda>_. v0)) g = Name_update (\<lambda>old. if c then v0 else old) g"
  "when_do c (Host_update (\<lambda>_. v1)) g = Host_update (\<lambda>old. if c then v1 else old) g"
  "when_do c (TcpPort_update (\<lambda>_. v2)) g = TcpPort_update (\<lambda>old. if c then v2 else old) g"
  "when_do c (Version_update (\<lambda>_. v3)) g = Version_update (\<lambda>old. if c then v3 else old) g"
  "when_do c (MaxPacketSize_update (\<lambda>_. v4)) g = MaxPacketSize_update (\<lambda>old. if c then v4 else old) g"
  "when_do c (MaxConn_update (\<lambda>_. v5)) g = MaxConn_update (\<lambda>old. if c then v5 else old) g"
  "when_do c (WorkerPoolSize_update (\<lambda>_. v6)) g = WorkerPoolSize_update (\<lambda>old. if c then v6 else old) g"
  "when_do c (MaxWorkerTaskLen_update (\<lambda>_. v7)) g = MaxWorkerTaskLen_update (\<lambda>old. if c then v7 else old) g"
  "when_do c (WorkerMode_update (\<lambda>_. v8)) g = WorkerMode_update (\<lambda>old. if c then v8 else old) g"
  "when_do c (MaxMsgChanLen_update (\<lambda>_. v9)) g = MaxMsgChanLen_update (\<lambda>old. if c then v9 else old) g"
  "when_do c (IOReadBuffSize_update (\<lambda>_. v10)) g = IOReadBuffSize_update (\<lambda>old. if c then v10 else old) g"
  "when_do c (LogDir_update (\<lambda>_. v12)) g = LogDir_update (\<lambda>old. if c then v12 else old) g"
  "when_do c (LogFile_update (\<lambda>_. v13)) g = LogFile_update (\<lambda>old. if c then v13 else old) g"
  "when_do c (HeartbeatMax_update (\<lambda>_. v14)) g = HeartbeatMax_update (\<lambda>old. if c then v14 else old) g"
  "when_do c (CertFile_update (\<lambda>_. v15)) g = CertFile_update (\<lambda>old. if c then v15 else old) g"
  "when_do c (PrivateKeyFile_update (\<lambda>_. v16)) g = PrivateKeyFile_update (\<lambda>old. if c then v16 else old) g"
  "when_do c (Mode_update (\<lambda>_. v17)) g = Mode_update (\<lambda>old. if c then v17 else old) g"
  "when_do c (WsPort_update (\<lambda>_. v18)) g = WsPort_update (\<lambda>old. if c then v18 else old) g"
  "when_do c (RouterSlicesMode_update (\<lambda>_. v19)) g = RouterSlicesMode_update (\<lambda>old. if c then v19 else old) g"
  "when_do c (RequestPoolMode_update (\<lambda>_. v20)) g = RequestPoolMode_update (\<lambda>old. if c then v20 else old) g"
  "when_do c (KcpPort_update (\<lambda>_. v21)) g = KcpPort_update (\<lambda>old. if c then v21 else old) g"
  "when_do c (KcpACKNoDelay_update (\<lambda>_. v22)) g = KcpACKNoDelay_update (\<lambda>old. if c then v22 else old) g"
  "when_do c (KcpStreamMode_update (\<lambda>_. v23)) g = KcpStreamMode_update (\<lambda>old. if c then v23 else old) g"
  "when_do c (KcpNoDelay_update (\<lambda>_. v24)) g = KcpNoDelay_update (\<lambda>old. if c then v24 else old) g"
  "when_do c (KcpInterval_update (\<lambda>_. v25)) g = KcpInterval_update (\<lambda>old. if c then v25 else old) g"
  "when_do c (KcpResend_update (\<lambda>_. v26)) g = KcpResend_update (\<lambda>old. if c then v26 else old) g"
  "when_do c (KcpNc_update (\<lambda>_. v27)) g = KcpNc_update (\<lambda>old. if c then v27 else old) g"
  "when_do c (KcpSendWindow_update (\<lambda>_. v28)) g = KcpSendWindow_update (\<lambda>old. if c then v28 else old) g"
  "when_do c (KcpRecvWindow_update (\<lambda>_. v29)) g = KcpRecvWindow_update (\<lambda>old. if c then v29 else old) g"
  "when_do c (KcpFecDataShards_update (\<lambda>_. v30)) g = KcpFecDataShards_update (\<lambda>old. if c then v30 else old) g"
  "when_do c (KcpFecParityShards_update (\<lambda>_. v31)) g = KcpFecParityShards_update (\<lambda>old. if c then v31 else old) g"
  by (cases g; simp add: when_do_def)+

text \<open>Each field of the global object after the merge.\<close>

lemma UserConfToGlobal_fields:
  "Name (GlobalObject (UserConfToGlobal LogDebug config s))
     = (if Name config \<noteq> [] then Name config else Name (GlobalObject s))"
  "Host (GlobalObject (UserConfToGlobal LogDebug config s))
     = (if Host config \<noteq> [] then Host config else Host (GlobalObject s))"
  "TcpPort (GlobalObject (UserConfToGlobal LogDebug config s))
     = (if TcpPort config \<noteq> 0 then TcpPort config else TcpPort (GlobalObject s))"
  "Version (GlobalObject (UserConfToGlobal LogDebug config s))
     = (if Version config \<noteq> [] then Version config else Version (GlobalObject s))"
  "MaxPacketSize (GlobalObject (UserConfToGlobal LogDebug config s))
     = (if MaxPacketSize config \<noteq> 0 then MaxPacketSize config else MaxPacketSize (GlobalObject s))"
  "MaxConn (GlobalObject (UserConfToGlobal LogDebug config s))
     = (if MaxConn config \<noteq> 0 then MaxConn config else MaxConn (GlobalObject s))"
  "WorkerPoolSize (GlobalObject (UserConfToGlobal LogDebug config s))
     = (if WorkerPoolSize config \<noteq> 0 then WorkerPoolSize config else WorkerPoolSize (GlobalObject s))"
  "MaxWorkerTaskLen (GlobalObject (UserConfToGlobal LogDebug config s))
     = (if MaxWorkerTaskLen config \<noteq> 0 then MaxWorkerTaskLen config else MaxWorkerTaskLen (GlobalObject s))"
  "WorkerMode (GlobalObject (UserConfToGlobal LogDebug config s))
     = (if WorkerMode config \<noteq> [] then WorkerMode config else WorkerMode (GlobalObject s))"
  "MaxMsgChanLen (GlobalObject (UserConfToGlobal LogDebug config s))
     = (if MaxMsgChanLen config \<noteq> 0 then MaxMsgChanLen config else MaxMsgChanLen (GlobalObject s))"
  "IOReadBuffSize (GlobalObject (UserConfToGlobal LogDebug config s))
     = (if IOReadBuffSize config \<noteq> 0 then IOReadBuffSize config else IOReadBuffSize (GlobalObject s))"
  "LogIsolationLevel (GlobalObject (UserConfToGlobal LogDebug config s)) = LogIsolationLevel config"
  "LogDir (GlobalObject (UserConfToGlobal LogDebug config s))
     = (if LogDir config \<noteq> [] then LogDir config else LogDir (GlobalObject s))"
  "LogFile (GlobalObject (UserConfToGlobal LogDebug config s))
     = (if LogFile config \<noteq> [] then LogFile config else LogFile (GlobalObject s))"
  "HeartbeatMax (GlobalObject (UserConfToGlobal LogDebug config s))
     = (if HeartbeatMax config \<noteq> 0 then HeartbeatMax config else HeartbeatMax (GlobalObject s))"
  "CertFile (GlobalObject (UserConfToGlobal LogDebug config s))
     = (if CertFile config \<noteq> [] then CertFile config else CertFile (GlobalObject s))"
  "PrivateKeyFile (GlobalObject (UserConfToGlobal LogDebug config s))
     = (if PrivateKeyFile config \<noteq> [] then PrivateKeyFile config else PrivateKeyFile (GlobalObject s))"
  "Mode (GlobalObject (UserConfToGlobal LogDebug config s))
     = (if Mode config \<noteq> [] then Mode config else Mode (GlobalObject s))"
  "WsPort (GlobalObject (UserConfToGlobal LogDebug config s))
     = (if WsPort config \<noteq> 0 then WsPort config else WsPort (GlobalObject s))"
  "RouterSlicesMode (GlobalObject (UserConfToGlobal LogDebug config s))
     = (if RouterSlicesMode config then RouterSlicesMode config else RouterSlicesMode (GlobalObject s))"
  "RequestPoolMode (GlobalObject (UserConfToGlobal LogDebug config s))
     = (if RequestPoolMode config then RequestPoolMode config else RequestPoolMode (GlobalObject s))"
  "KcpPort (GlobalObject (UserConfToGlobal LogDebug config s))
     = (if KcpPort config \<noteq> 0 then KcpPort config else KcpPort (GlobalObject s))"
  "KcpACKNoDelay (GlobalObject (UserConfToGlobal LogDebug config s))
     = (if KcpACKNoDelay config then KcpACKNoDelay config else KcpACKNoDelay (GlobalObject s))"
  "KcpStreamMode (GlobalObject (UserConfToGlobal LogDebug config s))
     = (if \<not> KcpStreamMode config then KcpStreamMode config else KcpStreamMode (GlobalObject s))"
  "KcpNoDelay (GlobalObject (UserConfToGlobal LogDebug config s))
     = (if KcpNoDelay config \<noteq> 0 then KcpNoDelay config else KcpNoDelay (GlobalObject s))"
  "KcpInterval (GlobalObject (UserConfToGlobal LogDebug config s))
     = (if KcpInterval config \<noteq> 0 then KcpInterval config else KcpInterval (GlobalObject s))"
  "KcpResend (GlobalObject (UserConfToGlobal LogDebug config s))
     = (if KcpResend config \<noteq> 0 then KcpResend config else KcpResend (GlobalObject s))"
  "KcpNc (GlobalObject (UserConfToGlobal LogDebug config s))
     = (if KcpNc config \<noteq> 0 then KcpNc config else KcpNc (GlobalObject s))"
  "KcpSendWindow (GlobalObject (UserConfToGlobal LogDebug config s))
     = (if KcpSendWindow config \<noteq> 0 then KcpSendWindow config else KcpSendWindow (GlobalObject s))"
  "KcpRecvWindow (GlobalObject (UserConfToGlobal LogDebug config s))
     = (if KcpRecvWindow config \<noteq> 0 then KcpRecvWindow config else KcpRecvWindow (GlobalObject s))"
  "KcpFecDataShards (GlobalObject (UserConfToGlobal LogDebug config s))
     = (if KcpFecDataShards config \<noteq> 0 then KcpFecDataShards config else KcpFecDataShards (GlobalObject s))"
  "KcpFecParityShards (GlobalObject (UserConfToGlobal LogDebug config s))
     = (if KcpFecParityShards config \<noteq> 0 then KcpFecParityShards config else KcpFecParityShards (GlobalObject s))"
  "Config.more (GlobalObject (UserConfToGlobal LogDebug config s)) = Config.more (GlobalObject s)"
  by (simp_all add: UserConfToGlobal_def GlobalObject_steps when_do_fields)

text \<open>
  C8. The merge assigns the KCP stream-mode flag of the global object from the user
  configuration exactly when the user's value is false; when it is true the global flag
  stays as it was. So the flag after the merge is the conjunction of the two.
\<close>

theorem UserConfToGlobal_KcpStreamMode:
  "KcpStreamMode (GlobalObject (UserConfToGlobal LogDebug config s))
     = (if \<not> KcpStreamMode config then KcpStreamMode config
        else KcpStreamMode (GlobalObject s))
   \<and> KcpStreamMode (GlobalObject (UserConfToGlobal LogDebug config s))
     = (KcpStreamMode config \<and> KcpStreamMode (GlobalObject s))"
  by (simp add: UserConfToGlobal_fields)

text \<open>C8 where the user asks for stream mode and the global flag is off: it stays off.\<close>

theorem UserConfToGlobal_KcpStreamMode_witness:
  "KcpStreamMode (zero_Config\<lparr>KcpStreamMode := True\<rparr>)
   \<and> \<not> KcpStreamMode (GlobalObject sample_state)
   \<and> \<not> KcpStreamMode (GlobalObject
         (UserConfToGlobal 0 (zero_Config\<lparr>KcpStreamMode := True\<rparr>) sample_state))"
  using UserConfToGlobal_KcpStreamMode
    [of 0 "zero_Config\<lparr>KcpStreamMode := True\<rparr>" sample_state]
  by (simp add: zero_Config_def sample_state_def)

text \<open>
  C10. For every field of the user configuration other than \<open>LogIsolationLevel\<close> and
  \<open>KcpStreamMode\<close>: when the field holds its zero value (the empty string, 0 or false),
  the merge leaves that field of the global object as it was. Fields of the struct that
  the function does not name stay as they were. \<open>LogIsolationLevel\<close> is copied whatever
  its value.
\<close>

theorem UserConfToGlobal_zero_keeps_global:
  fixes LogDebug :: int and config :: "'y Config_scheme" and s :: "'z gconf_state"
  defines "g \<equiv> GlobalObject s"
    and "g' \<equiv> GlobalObject (UserConfToGlobal LogDebug config s)"
  shows "(Name config = [] \<longrightarrow> Name g' = Name g)
     \<and> (Host config = [] \<longrightarrow> Host g' = Host g)
     \<and> (TcpPort config = 0 \<longrightarrow> TcpPort g' = TcpPort g)
     \<and> (Version config = [] \<longrightarrow> Version g' = Version g)
     \<and> (MaxPacketSize config = 0 \<longrightarrow> MaxPacketSize g' = MaxPacketSize g)
     \<and> (MaxConn config = 0 \<longrightarrow> MaxConn g' = MaxConn g)
     \<and> (WorkerPoolSize config = 0 \<longrightarrow> WorkerPoolSize g' = WorkerPoolSize g)
     \<and> (MaxWorkerTaskLen config = 0 \<longrightarrow> MaxWorkerTaskLen g' = MaxWorkerTaskLen g)
     \<and> (WorkerMode config = [] \<longrightarrow> WorkerMode g' = WorkerMode g)
     \<and> (MaxMsgChanLen config = 0 \<longrightarrow> MaxMsgChanLen g' = MaxMsgChanLen g)
     \<and> (IOReadBuffSize config = 0 \<longrightarrow> IOReadBuffSize g' = IOReadBuffSize g)
     \<and> (LogDir config = [] \<longrightarrow> LogDir g' = LogDir g)
     \<and> (LogFile config = [] \<longrightarrow> LogFile g' = LogFile g)
     \<and> (HeartbeatMax config = 0 \<longrightarrow> HeartbeatMax g' = HeartbeatMax g)
     \<and> (CertFile config = [] \<longrightarrow> CertFile g' = CertFile g)
     \<and> (PrivateKeyFile config = [] \<longrightarrow> PrivateKeyFile g' = PrivateKeyFile g)
     \<and> (Mode config = [] \<longrightarrow> Mode g' = Mode g)
     \<and> (WsPort config = 0 \<longrightarrow> WsPort g' = WsPort g)
     \<and> (\<not> RouterSlicesMode config \<longrightarrow> RouterSlicesMode g' = RouterSlicesMode g)
     \<and> (\<not> RequestPoolMode config \<longrightarrow> RequestPoolMode g' = RequestPoolMode g)
     \<and> (KcpPort config = 0 \<longrightarrow> KcpPort g' = KcpPort g)
     \<and> (\<not> KcpACKNoDelay config \<longrightarrow> KcpACKNoDelay g' = KcpACKNoDelay g)
     \<and> (KcpNoDelay config = 0 \<longrightarrow> KcpNoDelay g' = KcpNoDelay g)
     \<and> (KcpInterval config = 0 \<longrightarrow> KcpInterval g' = KcpInterval g)
     \<and> (KcpResend config = 0 \<longrightarrow> KcpResend g' = KcpResend g)
     \<and> (KcpNc config = 0 \<longrightarrow> KcpNc g' = KcpNc g)
     \<and> (KcpSendWindow config = 0 \<longrightarrow> KcpSendWindow g' = KcpSendWindow g)
     \<and> (KcpRecvWindow config = 0 \<longrightarrow> KcpRecvWindow g' = KcpRecvWindow g)
     \<and> (KcpFecDataShards config = 0 \<longrightarrow> KcpFecDataShards g' = KcpFecDataShards g)
     \<and> (KcpFecParityShards config = 0 \<longrightarrow> KcpFecParityShards g' = KcpFecParityShards g)
     \<and> Config.more g' = Config.more g
     \<and> LogIsolationLevel g' = LogIsolationLevel config"
  unfolding g_def g'_def by (simp add: UserConfToGlobal_fields)

text \<open>C10 at the zero value of the user configuration, merged into a filled global object.\<close>

theorem UserConfToGlobal_zero_keeps_global_witness:
  "Name (GlobalObject (UserConfToGlobal 0 zero_Config sample_state)) = Name (GlobalObject sample_state)
   \<and> Host (GlobalObject (UserConfToGlobal 0 zero_Config sample_state)) = Host (GlobalObject sample_state)
   \<and> TcpPort (GlobalObject (UserConfToGlobal 0 zero_Config sample_state)) = TcpPort (GlobalObject sample_state)
   \<and> Version (GlobalObject (UserConfToGlobal 0 zero_Config sample_state)) = Version (GlobalObject sample_state)
   \<and> MaxPacketSize (GlobalObject (UserConfToGlobal 0 zero_Config sample_state)) = MaxPacketSize (GlobalObject sample_state)
   \<and> MaxConn (GlobalObject (UserConfToGlobal 0 zero_Config sample_state)) = MaxConn (GlobalObject sample_state)
   \<and> WorkerPoolSize (GlobalObject (UserConfToGlobal 0 zero_Config sample_state)) = WorkerPoolSize (GlobalObject sample_state)
   \<and> MaxWorkerTaskLen (GlobalObject (UserConfToGlobal 0 zero_Config sample_state)) = MaxWorkerTaskLen (GlobalObject sample_state)
   \<and> WorkerMode (GlobalObject (UserConfToGlobal 0 zero_Config sample_state)) = WorkerMode (GlobalObject sample_state)
   \<and> MaxMsgChanLen (GlobalObject (UserConfToGlobal 0 zero_Config sample_state)) = MaxMsgChanLen (GlobalObject sample_state)
   \<and> IOReadBuffSize (GlobalObject (UserConfToGlobal 0 zero_Config sample_state)) = IOReadBuffSize (GlobalObject sample_state)
   \<and> LogDir (GlobalObject (UserConfToGlobal 0 zero_Config sample_state)) = LogDir (GlobalObject sample_state)
   \<and> LogFile (GlobalObject (UserConfToGlobal 0 zero_Config sample_state)) = LogFile (GlobalObject sample_state)
   \<and> HeartbeatMax (GlobalObject (UserConfToGlobal 0 zero_Config sample_state)) = HeartbeatMax (GlobalObject sample_state)
   \<and> CertFile (GlobalObject (UserConfToGlobal 0 zero_Config sample_state)) = CertFile (GlobalObject sample_state)
   \<and> PrivateKeyFile (GlobalObject (UserConfToGlobal 0 zero_Config sample_state)) = PrivateKeyFile (GlobalObject sample_state)
   \<and> Mode (GlobalObject (UserConfToGlobal 0 zero_Config sample_state)) = Mode (GlobalObject sample_state)
   \<and> WsPort (GlobalObject (UserConfToGlobal 0 zero_Config sample_state)) = WsPort (GlobalObject sample_state)
   \<and> RouterSlicesMode (GlobalObject (UserConfToGlobal 0 zero_Config sample_state)) = RouterSlicesMode (GlobalObject sample_state)
   \<and> RequestPoolMode (GlobalObject (UserConfToGlobal 0 zero_Config sample_state)) = RequestPoolMode (GlobalObject sample_state)
   \<and> KcpPort (GlobalObject (UserConfToGlobal 0 zero_Config sample_state)) = KcpPort (GlobalObject sample_state)
   \<and> KcpACKNoDelay (GlobalObject (UserConfToGlobal 0 zero_Config sample_state)) = KcpACKNoDelay (GlobalObject sample_state)
   \<and> KcpNoDelay (GlobalObject (UserConfToGlobal 0 zero_Config sample_state)) = KcpNoDelay (GlobalObject sample_state)
   \<and> KcpInterval (GlobalObject (UserConfToGlobal 0 zero_Config sample_state)) = KcpInterval (GlobalObject sample_state)
   \<and> KcpResend (GlobalObject (UserConfToGlobal 0 zero_Config sample_state)) = KcpResend (GlobalObject sample_state)
   \<and> KcpNc (GlobalObject (UserConfToGlobal 0 zero_Config sample_state)) = KcpNc (GlobalObject sample_state)
   \<and> KcpSendWindow (GlobalObject (UserConfToGlobal 0 zero_Config sample_state)) = KcpSendWindow (GlobalObject sample_state)
   \<and> KcpRecvWindow (GlobalObject (UserConfToGlobal 0 zero_Config sample_state)) = KcpRecvWindow (GlobalObject sample_state)
   \<and> KcpFecDataShards (GlobalObject (UserConfToGlobal 0 zero_Config sample_state)) = KcpFecDataShards (GlobalObject sample_state)
   \<and> KcpFecParityShards (GlobalObject (UserConfToGlobal 0 zero_Config sample_state)) = KcpFecParityShards (GlobalObject sample_state)
   \<and> LogIsolationLevel (GlobalObject (UserConfToGlobal 0 zero_Config sample_state)) = 0"
  using UserConfToGlobal_zero_keeps_global
    [where LogDebug = 0 and config = zero_Config and s = sample_state]
  by (simp add: zero_Config_def)

section \<open>Properties: panic recovery\<close>

lemma strings_Split_nonempty: "strings_Split s c \<noteq> []"
  by (induction s) (auto split: list.splits)

lemma length_strings_Split:
  "length (strings_Split s c) = Suc (length (filter (\<lambda>x. x = c) s))"
proof (induction s)
  case Nil
  then show ?case by simp
next
  case (Cons x xs)
  then show ?case by (auto split: list.splits)
qed







text \<open>
  Without a panic below, the middleware returns and logs nothing. The index into the
  split function name is not guarded: a name with no dot at depth 3 makes the deferred
  function itself panic.
\<close>

lemma RouterRecovery_returned: "RouterRecovery msgID Returned log = Inr log"
  by (simp add: RouterRecovery_def)

lemma RouterRecovery_unqualified_name:
  assumes "3 < length stack" and "CHR ''.'' \<notin> set (func_name (stack ! 3))"
  shows "RouterRecovery msgID (Panicked err stack) log = Inl (IndexOutOfRange 1)"
proof -
  have "filter (\<lambda>x. x = CHR ''.'') (func_name (stack ! 3)) = []"
    using assms(2) by (auto simp: filter_empty_conv)
  then have "length (strings_Split (func_name (stack ! 3)) (CHR ''.'')) = 1"
    by (simp add: length_strings_Split)
  then have "getInfo_loop stack 3 [] = Inl (IndexOutOfRange 1)"
    using assms(1)
    by (subst getInfo_loop.simps) (simp add: StackEnd_def Caller_def index_expr_def)
  then show ?thesis
    by (simp add: RouterRecovery_def getInfo_def StackBegin_def)
qed

end
